theory Spec2Isabelle
  imports Complex_Main "HOL-Library.Sublist" "HOL-Library.Char_ord" "HOL-Library.List_Lexorder"
begin

section \<open>Strings as the dashboard uses them\<close>

text \<open>
  The dashboard components are TypeScript. A JavaScript string is modelled as a
  \<open>string\<close> (a list of characters). \<open>String.prototype.toLowerCase\<close> is only ever
  applied to the \<open>severity\<close> and \<open>type\<close> fields of the sample records, which are ASCII;
  the model maps the letters A..Z to a..z and leaves every other character alone.
\<close>

definition toLowerCase_char :: "char \<Rightarrow> char" where
  "toLowerCase_char c =
     (if 65 \<le> (of_char c :: nat) \<and> (of_char c :: nat) \<le> 90
      then char_of ((of_char c :: nat) + 32) else c)"

definition toLowerCase :: "string \<Rightarrow> string" where
  "toLowerCase s = map toLowerCase_char s"

text \<open>
  \<open>s.includes(sub)\<close>: scan \<open>s\<close> from the left and test at every position whether
  \<open>sub\<close> starts there. The empty string is included in every string. (The name
  carries a suffix: \<open>includes\<close> is a keyword of Isabelle.)
\<close>

fun includes_str :: "string \<Rightarrow> string \<Rightarrow> bool" where
  "includes_str [] sub = (sub = [])"
| "includes_str (c # cs) sub = (prefix sub (c # cs) \<or> includes_str cs sub)"

section \<open>AnomalyDetection component\<close>

text \<open>
  One element of the \<open>anomalies\<close> array. \<open>id\<close>, \<open>type\<close> and \<open>timestamp\<close> carry the
  suffix \<open>_a\<close> (\<open>id\<close> is a constant of HOL). \<open>confidence\<close> is a JavaScript number; the four
  literals are two-digit decimals, compared here as the rationals they denote.
\<close>

record Anomaly =
  id_a :: nat
  type_a :: string
  severity :: string
  description :: string
  timestamp_a :: string
  location :: string
  tripId :: string
  duration :: string
  expectedDuration :: string
  distance :: string
  expectedDistance :: string
  confidence :: real
  riskFactors :: "string list"

definition anomaly1 :: Anomaly where
  "anomaly1 = \<lparr> id_a = 1, type_a = ''Unusual Route'', severity = ''High'',
     description = ''Trip took significantly longer detour than optimal route'',
     timestamp_a = ''2024-01-15 14:23:45'', location = ''District 5, Zone A'',
     tripId = ''T-2024-001247'', duration = ''47 min'', expectedDuration = ''18 min'',
     distance = ''28.5 km'', expectedDistance = ''12.3 km'', confidence = 0.94,
     riskFactors = [''Unusual Route'', ''Extended Duration'', ''Remote Area''] \<rparr>"

definition anomaly2 :: Anomaly where
  "anomaly2 = \<lparr> id_a = 2, type_a = ''Speed Anomaly'', severity = ''Medium'',
     description = ''Vehicle speed patterns inconsistent with traffic conditions'',
     timestamp_a = ''2024-01-15 12:15:22'', location = ''Highway Section B2'',
     tripId = ''T-2024-001198'', duration = ''25 min'', expectedDuration = ''22 min'',
     distance = ''35.2 km'', expectedDistance = ''33.1 km'', confidence = 0.78,
     riskFactors = [''Speed Variation'', ''Traffic Inconsistency''] \<rparr>"

definition anomaly3 :: Anomaly where
  "anomaly3 = \<lparr> id_a = 3, type_a = ''Time Anomaly'', severity = ''Low'',
     description = ''Trip occurred during unusually low-demand period'',
     timestamp_a = ''2024-01-15 03:45:12'', location = ''Business District'',
     tripId = ''T-2024-001089'', duration = ''12 min'', expectedDuration = ''15 min'',
     distance = ''8.7 km'', expectedDistance = ''9.2 km'', confidence = 0.65,
     riskFactors = [''Off-Peak Hours'', ''Business Area''] \<rparr>"

definition anomaly4 :: Anomaly where
  "anomaly4 = \<lparr> id_a = 4, type_a = ''Geographic Outlier'', severity = ''High'',
     description = ''Trip endpoint in isolated area with low historical activity'',
     timestamp_a = ''2024-01-15 19:34:56'', location = ''Rural Zone R7'',
     tripId = ''T-2024-001312'', duration = ''38 min'', expectedDuration = ''25 min'',
     distance = ''42.1 km'', expectedDistance = ''28.4 km'', confidence = 0.89,
     riskFactors = [''Isolated Destination'', ''Low Activity Area'', ''Late Hours''] \<rparr>"

definition anomalies :: "Anomaly list" where
  "anomalies = [anomaly1, anomaly2, anomaly3, anomaly4]"

text \<open>
  \<open>getSeverityColor\<close>: a \<open>switch\<close> over the severity string with a \<open>default\<close> branch.
\<close>

definition getSeverityColor :: "string \<Rightarrow> string" where
  "getSeverityColor sev =
     (if sev = ''High'' then ''bg-destructive text-destructive-foreground''
      else if sev = ''Medium'' then ''bg-warning text-warning-foreground''
      else if sev = ''Low'' then ''bg-muted text-muted-foreground''
      else ''bg-secondary text-secondary-foreground'')"

text \<open>
  \<open>filteredAnomalies\<close> is recomputed on every render from the two pieces of component
  state, \<open>selectedSeverity\<close> and \<open>selectedType\<close>; it is a function of them.
\<close>

definition matchesSeverity :: "string \<Rightarrow> Anomaly \<Rightarrow> bool" where
  "matchesSeverity selectedSeverity anomaly =
     (selectedSeverity = ''all'' \<or> toLowerCase (severity anomaly) = selectedSeverity)"

definition matchesType :: "string \<Rightarrow> Anomaly \<Rightarrow> bool" where
  "matchesType selectedType anomaly =
     (selectedType = ''all'' \<or> includes_str (toLowerCase (type_a anomaly)) selectedType)"

definition filteredAnomalies :: "string \<Rightarrow> string \<Rightarrow> Anomaly list" where
  "filteredAnomalies selectedSeverity selectedType =
     filter (\<lambda>anomaly. matchesSeverity selectedSeverity anomaly \<and> matchesType selectedType anomaly)
       anomalies"

section \<open>PopularRoutes component\<close>





section \<open>Configuration block of the README\<close>

definition H3_RESOLUTION :: nat where
  "H3_RESOLUTION = 9"

definition MIN_TRIPS_PER_HEX :: nat where
  "MIN_TRIPS_PER_HEX = 5"

definition ISOLATION_FEATURES :: "string list" where
  "ISOLATION_FEATURES = [''duration'', ''distance'', ''speed'']"

section \<open>Data model of the analysis pipeline\<close>

text \<open>
  Modelled from the spec: the records of section 3. The README lists the pipeline
  (ingest, H3 aggregation, clustering, Isolation Forest) as notebooks of the project;
  none of them is among the source files, and no source file declares these types.
  A timestamp is an instant in whole seconds; coordinates are real numbers in degrees.
  The \<open>straight_line_ratio\<close> of a feature vector is \<open>None\<close> where the spec gives the
  quotient no value (a travelled distance of 0).
\<close>

type_synonym SpatialCell = nat
type_synonym TimeBucket = int

record TripPoint =
  trip_id :: string
  timestamp :: int
  lat :: real
  lon :: real

record AggregateBin =
  cell :: SpatialCell
  bucket :: TimeBucket
  trip_count :: nat
  distinct_trip_ids_hint :: nat

record FeatureVector =
  duration_s :: real
  distance_m :: real
  avg_speed_mps :: real
  start_cell :: SpatialCell
  end_cell :: SpatialCell
  straight_line_ratio :: "real option"

datatype Severity = LOW | MEDIUM | HIGH

record AnomalyRecord =
  record_trip_id :: string
  anomaly_score :: real
  severity_label :: Severity
  contributing_factors :: "string list"

text \<open>Modelled from the spec: the per-record faults of the error taxonomy (section 7).\<close>

datatype fault =
  InvalidCoordinate | MalformedRecord | InsufficientPoints | NonMonotonicTimestamps | DegenerateTrip

section \<open>PrivacyAggregator\<close>

text \<open>
  Modelled from the spec: \<open>aggregate\<close> (section 4.2) is missing from the sources. The
  SpatialIndexer is missing as well and is a parameter here: \<open>cellOf\<close> gives the cell of
  a point at the configured resolution, \<open>parent\<close> the cell one resolution coarser, and
  \<open>coarser\<close> the next-coarser time bucket.

  ``Assign each point to (cell, bucket) via SpatialIndexer and time coarsening; tally
  counts per key.'' A key function \<open>f\<close> assigns the key; \<open>members f ps k\<close> are the points
  tallied under \<open>k\<close>.
\<close>

type_synonym bin_key = "SpatialCell \<times> TimeBucket"

definition members :: "(TripPoint \<Rightarrow> bin_key) \<Rightarrow> TripPoint list \<Rightarrow> bin_key \<Rightarrow> TripPoint list" where
  "members f ps k = filter (\<lambda>p. f p = k) ps"

definition make_bin :: "bin_key \<Rightarrow> TripPoint list \<Rightarrow> AggregateBin" where
  "make_bin k g =
     \<lparr> cell = fst k, bucket = snd k, trip_count = length g,
       distinct_trip_ids_hint = length (remdups (map trip_id g)) \<rparr>"

text \<open>
  Modelled from the spec: the bins of one tally that reach the floor (``no emitted
  AggregateBin ever has count < k_min''), and the points of the groups that do not.
\<close>

definition emit_level :: "nat \<Rightarrow> (TripPoint \<Rightarrow> bin_key) \<Rightarrow> TripPoint list \<Rightarrow> AggregateBin list" where
  "emit_level k_min f ps =
     map (\<lambda>k. make_bin k (members f ps k))
       (filter (\<lambda>k. k_min \<le> length (members f ps k)) (remdups (map f ps)))"

definition below_floor :: "nat \<Rightarrow> (TripPoint \<Rightarrow> bin_key) \<Rightarrow> TripPoint list \<Rightarrow> TripPoint list" where
  "below_floor k_min f ps = filter (\<lambda>p. length (members f ps (f p)) < k_min) ps"

text \<open>
  Modelled from the spec: ``Any key with count < k_min is merged into [a coarser key]
  and re-tallied; if still below k_min after one widening pass, the bin is suppressed.''
  The list of key functions is the widening order; when it is used up, the remaining
  points are dropped.
\<close>

fun widen :: "nat \<Rightarrow> (TripPoint \<Rightarrow> bin_key) list \<Rightarrow> TripPoint list \<Rightarrow> AggregateBin list" where
  "widen k_min [] ps = []"
| "widen k_min (f # fs) ps = emit_level k_min f ps @ widen k_min fs (below_floor k_min f ps)"

text \<open>
  Modelled from the spec: the three keys of a point and \<open>aggregate\<close> itself. ``Merge
  order is: widen time bucket first, then widen spatial resolution.'' The bucket of an
  instant is its quotient by the bucket width, rounded down; a width of 0 is outside
  the configuration, and HOL's \<open>x div 0 = 0\<close> would put every point into bucket 0.
\<close>

definition fine_key :: "(TripPoint \<Rightarrow> SpatialCell) \<Rightarrow> int \<Rightarrow> TripPoint \<Rightarrow> bin_key" where
  "fine_key cellOf bucket_width p = (cellOf p, timestamp p div bucket_width)"

definition time_widened_key ::
  "(TripPoint \<Rightarrow> SpatialCell) \<Rightarrow> (TimeBucket \<Rightarrow> TimeBucket) \<Rightarrow> int \<Rightarrow> TripPoint \<Rightarrow> bin_key" where
  "time_widened_key cellOf coarser bucket_width p =
     (cellOf p, coarser (timestamp p div bucket_width))"

definition space_widened_key ::
  "(TripPoint \<Rightarrow> SpatialCell) \<Rightarrow> (SpatialCell \<Rightarrow> SpatialCell) \<Rightarrow> (TimeBucket \<Rightarrow> TimeBucket)
     \<Rightarrow> int \<Rightarrow> TripPoint \<Rightarrow> bin_key" where
  "space_widened_key cellOf parent coarser bucket_width p =
     (parent (cellOf p), coarser (timestamp p div bucket_width))"

definition aggregate ::
  "(TripPoint \<Rightarrow> SpatialCell) \<Rightarrow> (SpatialCell \<Rightarrow> SpatialCell) \<Rightarrow> (TimeBucket \<Rightarrow> TimeBucket)
     \<Rightarrow> TripPoint list \<Rightarrow> int \<Rightarrow> nat \<Rightarrow> AggregateBin list" where
  "aggregate cellOf parent coarser points bucket_width k_min =
     widen k_min
       [fine_key cellOf bucket_width,
        time_widened_key cellOf coarser bucket_width,
        space_widened_key cellOf parent coarser bucket_width]
       points"

text \<open>
  Modelled from the spec: \<open>getHeatmap\<close> of the QueryFacade (section 6) is missing from the
  sources. It selects, from the bins of an aggregation run, those of a time range (a pair
  of buckets, both ends included) and of a region (a predicate on cells).
\<close>

definition getHeatmap ::
  "AggregateBin list \<Rightarrow> TimeBucket \<times> TimeBucket \<Rightarrow> (SpatialCell \<Rightarrow> bool) \<Rightarrow> AggregateBin list" where
  "getHeatmap bins time_range region_filter =
     filter (\<lambda>b. fst time_range \<le> bucket b \<and> bucket b \<le> snd time_range \<and> region_filter (cell b)) bins"

section \<open>TripFeatureExtractor\<close>

text \<open>
  Modelled from the spec: the great-circle distance between two points, in metres, by the
  haversine formula on a sphere of the Earth's mean radius; coordinates are in degrees.
\<close>

definition radians :: "real \<Rightarrow> real" where
  "radians d = d * pi / 180"

definition earth_radius_m :: real where
  "earth_radius_m = 6371000"

definition great_circle_m :: "TripPoint \<Rightarrow> TripPoint \<Rightarrow> real" where
  "great_circle_m p q =
     2 * earth_radius_m *
       arcsin (sqrt ((sin ((radians (lat q) - radians (lat p)) / 2))\<^sup>2
                     + cos (radians (lat p)) * cos (radians (lat q))
                       * (sin ((radians (lon q) - radians (lon p)) / 2))\<^sup>2))"

text \<open>
  Modelled from the spec: ``Distance = sum of great-circle distances between consecutive
  points.''
\<close>

fun path_length :: "TripPoint list \<Rightarrow> real" where
  "path_length (p # q # ps) = great_circle_m p q + path_length (q # ps)"
| "path_length ps = 0"

text \<open>Modelled from the spec: ``... if any consecutive pair decreases.''\<close>

fun decreases :: "TripPoint list \<Rightarrow> bool" where
  "decreases (p # q # ps) = (timestamp q < timestamp p \<or> decreases (q # ps))"
| "decreases ps = False"

text \<open>Modelled from the spec: ``clamped to [0,1]''.\<close>

definition clamp01 :: "real \<Rightarrow> real" where
  "clamp01 x = max 0 (min 1 x)"

text \<open>
  Modelled from the spec: ``straight-line distance / traveled distance ... clamped to
  [0,1]''. Where the travelled distance is 0 the quotient has no value and the spec
  names none: the ratio is then \<open>None\<close>, and nothing is said of it.
\<close>

definition ratio_of :: "real \<Rightarrow> real \<Rightarrow> real option" where
  "ratio_of straight travelled =
     (if travelled = 0 then None else Some (clamp01 (straight / travelled)))"

text \<open>
  Modelled from the spec: the faults of a trip (section 4.3). ``Fails with
  InsufficientPoints'' under 2 points (section 3); ``fails with NonMonotonicTimestamps if
  any consecutive pair decreases''; ``if duration \<le> 0, fails with DegenerateTrip'', the
  duration being that of a trip of at least 2 points (section 3: ``at least 2 points
  required to compute duration''). Section 4.3 gives the three checks no precedence:
  each sentence holds of the set of all faults that apply, and of no single choice
  among them when two apply. The model therefore keeps the set.
\<close>

definition faults_of :: "TripPoint list \<Rightarrow> fault set" where
  "faults_of trip =
     (if length trip < 2 then {InsufficientPoints} else {})
     \<union> (if decreases trip then {NonMonotonicTimestamps} else {})
     \<union> (if 2 \<le> length trip \<and> timestamp (last trip) - timestamp (hd trip) \<le> 0
        then {DegenerateTrip} else {})"

text \<open>
  Modelled from the spec: \<open>extract\<close> (section 4.3) is missing from the sources; it is
  \<open>extract_trip\<close> here (\<open>extract\<close> is a command of Isabelle). A trip with a fault fails
  with its faults; a trip with none yields its feature vector. \<open>cellOf\<close> is the
  SpatialIndexer at the configured resolution, applied to the first and the last point.
\<close>

definition extract_trip ::
  "(TripPoint \<Rightarrow> SpatialCell) \<Rightarrow> TripPoint list \<Rightarrow> fault set + FeatureVector" where
  "extract_trip cellOf trip =
     (if faults_of trip \<noteq> {} then Inl (faults_of trip)
      else Inr \<lparr> duration_s = real_of_int (timestamp (last trip) - timestamp (hd trip)),
                 distance_m = path_length trip,
                 avg_speed_mps =
                   path_length trip / real_of_int (timestamp (last trip) - timestamp (hd trip)),
                 start_cell = cellOf (hd trip),
                 end_cell = cellOf (last trip),
                 straight_line_ratio =
                   ratio_of (great_circle_m (hd trip) (last trip)) (path_length trip) \<rparr>)"

text \<open>
  Modelled from the spec: the feature-extraction stage over a batch (sections 4.5 and 7).
  A trip is its identifier with its ordered points. A trip whose extraction fails ``is
  excluded and the fault is recorded in a run-level report''; the others go on to
  clustering and scoring with their feature vectors. The result is the pair of the
  feature vectors and the report.
\<close>

type_synonym Trip = "string \<times> TripPoint list"

fun extract_batch ::
  "(TripPoint \<Rightarrow> SpatialCell) \<Rightarrow> Trip list
     \<Rightarrow> (string \<times> FeatureVector) list \<times> (string \<times> fault set) list" where
  "extract_batch cellOf [] = ([], [])"
| "extract_batch cellOf (t # ts) =
     (case extract_trip cellOf (snd t) of
        Inl reasons \<Rightarrow>
          (fst (extract_batch cellOf ts), (fst t, reasons) # snd (extract_batch cellOf ts))
      | Inr fv \<Rightarrow> ((fst t, fv) # fst (extract_batch cellOf ts), snd (extract_batch cellOf ts)))"

section \<open>AnomalyScorer\<close>

text \<open>
  Modelled from the spec: \<open>score\<close> (section 4.5) is missing from the sources. The fitted
  forest is a parameter: \<open>forest_score\<close> is its normalised score of a feature vector and
  \<open>factors_of\<close> the contributing factors it derives. The severity is cut from the score
  by the two thresholds of the configuration, \<open>\<tau>_high\<close> above \<open>\<tau>_med\<close>.
\<close>

record Model =
  forest_score :: "FeatureVector \<Rightarrow> real"
  factors_of :: "FeatureVector \<Rightarrow> string list"
  tau_high :: real
  tau_med :: real

definition severity_of :: "real \<Rightarrow> real \<Rightarrow> real \<Rightarrow> Severity" where
  "severity_of t_high t_med s =
     (if t_high \<le> s then HIGH else if t_med \<le> s then MEDIUM else LOW)"

fun severity_rank :: "Severity \<Rightarrow> nat" where
  "severity_rank LOW = 0"
| "severity_rank MEDIUM = 1"
| "severity_rank HIGH = 2"

definition score :: "Model \<Rightarrow> string \<times> FeatureVector \<Rightarrow> AnomalyRecord" where
  "score model t =
     \<lparr> record_trip_id = fst t,
       anomaly_score = forest_score model (snd t),
       severity_label = severity_of (tau_high model) (tau_med model) (forest_score model (snd t)),
       contributing_factors = factors_of model (snd t) \<rparr>"

definition score_all :: "Model \<Rightarrow> (string \<times> FeatureVector) list \<Rightarrow> AnomalyRecord list" where
  "score_all model population = map (score model) population"

section \<open>The order the specification names for the anomaly list\<close>

text \<open>
  ``Sorted by score descending, ties broken by trip_id ascending'', read over the records
  of the component: the score of a record is its \<open>confidence\<close>, the only number it
  carries. \<open>array_order\<close> is the order of the \<open>anomalies\<close> array itself, whose \<open>id\<close>s
  count upwards.
\<close>

definition by_score_then_trip_id :: "Anomaly \<Rightarrow> Anomaly \<Rightarrow> bool" where
  "by_score_then_trip_id a b =
     (confidence b < confidence a \<or> (confidence a = confidence b \<and> tripId a \<le> tripId b))"

definition array_order :: "Anomaly \<Rightarrow> Anomaly \<Rightarrow> bool" where
  "array_order a b = (id_a a < id_a b)"



section \<open>Sample inputs\<close>

text \<open>
  Concrete inputs on which the pipeline is evaluated below. \<open>lon_band\<close> stands in for
  the indexer: one cell per degree of longitude; seven cells share a parent; an hourly
  bucket widens to the day.
\<close>

definition lon_band :: "TripPoint \<Rightarrow> SpatialCell" where
  "lon_band p = nat \<lfloor>lon p + 180\<rfloor>"

definition band_parent :: "SpatialCell \<Rightarrow> SpatialCell" where
  "band_parent c = c div 7"

definition hour_to_day :: "TimeBucket \<Rightarrow> TimeBucket" where
  "hour_to_day b = b div 24"

definition point :: "string \<Rightarrow> int \<Rightarrow> real \<Rightarrow> real \<Rightarrow> TripPoint" where
  "point i t la lo = \<lparr> trip_id = i, timestamp = t, lat = la, lon = lo \<rparr>"

text \<open>
  Five points of one cell, three in the first hour and two in the second, and a lone
  point a quarter of the globe away.
\<close>

definition sample_points :: "TripPoint list" where
  "sample_points =
     [point ''a'' 0 0 0, point ''b'' 10 0 0, point ''c'' 20 0 0,
      point ''d'' 3600 0 0, point ''e'' 3700 0 0, point ''f'' 50 0 90]"

text \<open>Scenario B of the spec: two points, the same place, the same instant.\<close>

definition scenario_B_trip :: "TripPoint list" where
  "scenario_B_trip = [point ''B'' 0 0 0, point ''B'' 0 0 0]"

text \<open>Half way round the equator and back, one second per leg; and the outward leg alone.\<close>

definition round_trip :: "TripPoint list" where
  "round_trip = [point ''R'' 0 0 0, point ''R'' 1 0 180, point ''R'' 2 0 0]"

definition one_way_trip :: "TripPoint list" where
  "one_way_trip = [point ''W'' 0 0 0, point ''W'' 1 0 180]"




text \<open>A stand-in for a fitted forest: the less direct a trip, the higher its score.\<close>

definition detour_score :: "FeatureVector \<Rightarrow> real" where
  "detour_score fv = (case straight_line_ratio fv of None \<Rightarrow> 0 | Some r \<Rightarrow> 1 - r)"

definition no_factors :: "FeatureVector \<Rightarrow> string list" where
  "no_factors fv = []"

definition sample_model :: Model where
  "sample_model = \<lparr> forest_score = detour_score, factors_of = no_factors,
                     tau_high = 0.85, tau_med = 0.7 \<rparr>"

definition sample_population :: "(string \<times> FeatureVector) list" where
  "sample_population =
     [(''R'', \<lparr> duration_s = 2, distance_m = 40, avg_speed_mps = 20, start_cell = 180,
               end_cell = 180, straight_line_ratio = Some 0 \<rparr>),
      (''W'', \<lparr> duration_s = 1, distance_m = 20, avg_speed_mps = 20, start_cell = 180,
               end_cell = 360, straight_line_ratio = Some 1 \<rparr>)]"

section \<open>Properties of the dashboard components\<close>

lemmas anomaly_defs = anomalies_def anomaly1_def anomaly2_def anomaly3_def anomaly4_def

text \<open>\<open>includes_str\<close> decides the substring relation.\<close>

lemma includes_str_iff: "includes_str s sub \<longleftrightarrow> (\<exists>ps ss. s = ps @ sub @ ss)"
proof (induction s)
  case Nil
  then show ?case by auto
next
  case (Cons c cs)
  have "(\<exists>ps ss. c # cs = ps @ sub @ ss)
          \<longleftrightarrow> prefix sub (c # cs) \<or> (\<exists>ps ss. cs = ps @ sub @ ss)"
    using sublist_Cons_right [of sub c cs] by (simp add: sublist_def)
  with Cons show ?case by simp
qed

text \<open>The lowercased fields of the four sample records, and two selections.\<close>

lemma lowered_samples:
  "toLowerCase ''High'' = ''high''"
  "toLowerCase ''Medium'' = ''medium''"
  "toLowerCase ''Low'' = ''low''"
  "toLowerCase ''Unusual Route'' = ''unusual route''"
  "toLowerCase ''Speed Anomaly'' = ''speed anomaly''"
  "toLowerCase ''Time Anomaly'' = ''time anomaly''"
  "toLowerCase ''Geographic Outlier'' = ''geographic outlier''"
  by code_simp+

lemma filteredAnomalies_samples:
  "filteredAnomalies ''high'' ''all'' = [anomaly1, anomaly4]"
  "filteredAnomalies ''all'' ''route'' = [anomaly1]"
  "filteredAnomalies ''medium'' ''geographic'' = []"
  by (simp_all add: filteredAnomalies_def matchesSeverity_def matchesType_def anomaly_defs
      lowered_samples)

text \<open>
  C10. \<open>getSeverityColor\<close> is total: on every severity string other than \<open>High\<close>,
  \<open>Medium\<close> and \<open>Low\<close> it returns the secondary badge class of its \<open>default\<close> branch;
  it has no failing branch.
\<close>

theorem getSeverityColor_default:
  "sev \<notin> {''High'', ''Medium'', ''Low''}
     \<Longrightarrow> getSeverityColor sev = ''bg-secondary text-secondary-foreground''"
  by (simp add: getSeverityColor_def)

theorem getSeverityColor_default_witness:
  "''Critical'' \<notin> {''High'', ''Medium'', ''Low''}
   \<and> getSeverityColor ''Critical'' = ''bg-secondary text-secondary-foreground''"
  using getSeverityColor_default [of "''Critical''"] by simp

text \<open>
  C9. For every severity selection and type selection, \<open>filteredAnomalies\<close> is exactly
  the sublist of \<open>anomalies\<close>, in array order, of the records whose lowercased severity
  equals the selection (or the selection is \<open>all\<close>) and whose lowercased type has the
  selection as a substring (or the selection is \<open>all\<close>); with \<open>all\<close> for both it is the
  whole array.
\<close>

theorem filteredAnomalies_exact:
  "filteredAnomalies sev ty =
     filter (\<lambda>a. (sev = ''all'' \<or> toLowerCase (severity a) = sev)
               \<and> (ty = ''all'' \<or> (\<exists>ps ss. toLowerCase (type_a a) = ps @ ty @ ss)))
       anomalies
   \<and> filteredAnomalies ''all'' ''all'' = anomalies"
  by (simp add: filteredAnomalies_def matchesSeverity_def matchesType_def includes_str_iff)

text \<open>
  C2, as stated, fails: with no filter the list is the array itself, whose confidences
  run 0.94, 0.78, 0.65, 0.89; the last two are not in descending order.
\<close>

theorem filteredAnomalies_not_by_score:
  "\<not> sorted_wrt by_score_then_trip_id (filteredAnomalies ''all'' ''all'')"
  by (simp add: filteredAnomalies_def matchesSeverity_def matchesType_def anomaly_defs
      by_score_then_trip_id_def)

text \<open>
  C2, amended. For every severity filter and type filter, the list that
  \<open>filteredAnomalies\<close> returns keeps the order of the \<open>anomalies\<close> array: it is a
  subsequence of the array and ascends by \<open>id\<close>. It is not sorted by score, and the
  component has no limit.
\<close>

theorem filteredAnomalies_array_order:
  "subseq (filteredAnomalies sev ty) anomalies
   \<and> sorted_wrt array_order (filteredAnomalies sev ty)"
proof
  show "subseq (filteredAnomalies sev ty) anomalies"
    by (simp add: filteredAnomalies_def)
  have "sorted_wrt array_order anomalies"
    by (simp add: anomaly_defs array_order_def)
  then show "sorted_wrt array_order (filteredAnomalies sev ty)"
    unfolding filteredAnomalies_def by (rule sorted_wrt_filter)
qed





section \<open>Properties of the aggregation\<close>

lemma emit_level_floor: "b \<in> set (emit_level k_min f ps) \<Longrightarrow> k_min \<le> trip_count b"
  by (auto simp: emit_level_def make_bin_def)

text \<open>The count of an emitted bin is the tally of its key: no count is made up.\<close>

lemma emit_level_tally:
  "b \<in> set (emit_level k_min f ps)
     \<Longrightarrow> trip_count b = length (members f ps (cell b, bucket b))"
  by (auto simp: emit_level_def make_bin_def)

text \<open>A group below the floor is not emitted at its level.\<close>

lemma emit_level_suppresses:
  "length (members f ps k) < k_min
     \<Longrightarrow> make_bin k (members f ps k) \<notin> set (emit_level k_min f ps)"
  by (auto simp: emit_level_def make_bin_def)

lemma widen_floor: "b \<in> set (widen k_min fs ps) \<Longrightarrow> k_min \<le> trip_count b"
proof (induction fs arbitrary: ps)
  case Nil
  then show ?case by simp
next
  case (Cons f fs)
  from Cons.prems
  have "b \<in> set (emit_level k_min f ps) \<or> b \<in> set (widen k_min fs (below_floor k_min f ps))"
    by simp
  then show ?case
  proof
    assume "b \<in> set (emit_level k_min f ps)"
    then show ?thesis by (rule emit_level_floor)
  next
    assume "b \<in> set (widen k_min fs (below_floor k_min f ps))"
    then show ?thesis by (rule Cons.IH)
  qed
qed

lemmas aggregate_defs =
  aggregate_def emit_level_def below_floor_def members_def make_bin_def fine_key_def
  time_widened_key_def space_widened_key_def

lemmas sample_defs = sample_points_def point_def lon_band_def band_parent_def hour_to_day_def

text \<open>
  On the sample points no hourly group reaches the floor of five; the two hours of the
  first cell merge into one bin of the day, and the lone point is suppressed.
\<close>

lemma sample_aggregate:
  "aggregate lon_band band_parent hour_to_day sample_points 3600 MIN_TRIPS_PER_HEX
     = [\<lparr> cell = 180, bucket = 0, trip_count = 5, distinct_trip_ids_hint = 5 \<rparr>]"
  by (simp add: aggregate_defs sample_defs MIN_TRIPS_PER_HEX_def)

text \<open>
  C1. Every bin that \<open>aggregate\<close> emits, and so every bin that \<open>getHeatmap\<close> shows, has
  \<open>trip_count \<ge> k_min\<close>: a group below the floor is merged into a coarser bucket or
  suppressed, never emitted.
\<close>

theorem aggregate_k_anonymous:
  "(\<forall>b \<in> set (aggregate cellOf parent coarser points bucket_width k_min). k_min \<le> trip_count b)
   \<and> (\<forall>b \<in> set (getHeatmap (aggregate cellOf parent coarser points bucket_width k_min)
                    time_range region_filter).
        k_min \<le> trip_count b)"
proof (intro conjI ballI)
  fix b
  assume "b \<in> set (aggregate cellOf parent coarser points bucket_width k_min)"
  then show "k_min \<le> trip_count b"
    unfolding aggregate_def by (rule widen_floor)
next
  fix b
  assume "b \<in> set (getHeatmap (aggregate cellOf parent coarser points bucket_width k_min)
                     time_range region_filter)"
  then have "b \<in> set (aggregate cellOf parent coarser points bucket_width k_min)"
    by (simp add: getHeatmap_def)
  then show "k_min \<le> trip_count b"
    unfolding aggregate_def by (rule widen_floor)
qed

theorem aggregate_k_anonymous_witness:
  "aggregate lon_band band_parent hour_to_day sample_points 3600 MIN_TRIPS_PER_HEX
     = [\<lparr> cell = 180, bucket = 0, trip_count = 5, distinct_trip_ids_hint = 5 \<rparr>]
   \<and> emit_level MIN_TRIPS_PER_HEX (fine_key lon_band 3600) sample_points = []
   \<and> MIN_TRIPS_PER_HEX
       \<le> trip_count \<lparr> cell = 180, bucket = 0, trip_count = 5, distinct_trip_ids_hint = 5 \<rparr>"
proof -
  let ?bin = "\<lparr> cell = 180, bucket = 0, trip_count = 5, distinct_trip_ids_hint = 5 \<rparr>"
  let ?out = "aggregate lon_band band_parent hour_to_day sample_points 3600 MIN_TRIPS_PER_HEX"
  have out: "?out = [?bin]" by (rule sample_aggregate)
  then have "?bin \<in> set ?out" by simp
  with aggregate_k_anonymous
         [of lon_band band_parent hour_to_day sample_points 3600 MIN_TRIPS_PER_HEX]
  have "MIN_TRIPS_PER_HEX \<le> trip_count ?bin" by blast
  moreover have "emit_level MIN_TRIPS_PER_HEX (fine_key lon_band 3600) sample_points = []"
    by (simp add: aggregate_defs sample_defs MIN_TRIPS_PER_HEX_def)
  ultimately show ?thesis using out by simp
qed

section \<open>Properties of the feature extraction\<close>

lemma clamp01_range: "0 \<le> clamp01 x \<and> clamp01 x \<le> 1"
  by (simp add: clamp01_def)

lemma great_circle_same_place:
  "lat p = lat q \<Longrightarrow> lon p = lon q \<Longrightarrow> great_circle_m p q = 0"
  by (simp add: great_circle_m_def)

lemma great_circle_half_equator:
  "great_circle_m (point i t 0 0) (point j u 0 180) = earth_radius_m * pi"
  "great_circle_m (point j u 0 180) (point i t 0 0) = earth_radius_m * pi"
  by (simp_all add: great_circle_m_def point_def radians_def sin_squared_eq)

lemma earth_radius_pos: "0 < earth_radius_m"
  by (simp add: earth_radius_m_def)

lemma faults_of_none:
  "2 \<le> length trip \<Longrightarrow> \<not> decreases trip
     \<Longrightarrow> timestamp (hd trip) < timestamp (last trip) \<Longrightarrow> faults_of trip = {}"
  by (simp add: faults_of_def)

lemma ratio_of_range:
  assumes "0 < travelled"
  shows "\<exists>r. ratio_of straight travelled = Some r \<and> 0 \<le> r \<and> r \<le> 1
             \<and> (0 < straight \<longrightarrow> 0 < r)"
proof -
  from assms have "ratio_of straight travelled = Some (clamp01 (straight / travelled))"
    by (simp add: ratio_of_def)
  moreover have "0 < straight \<longrightarrow> 0 < clamp01 (straight / travelled)"
    using assms by (simp add: clamp01_def)
  ultimately show ?thesis
    using clamp01_range [of "straight / travelled"] by simp
qed

lemma extract_scenario_B: "extract_trip lon_band scenario_B_trip = Inl {DegenerateTrip}"
  by (simp add: extract_trip_def faults_of_def scenario_B_trip_def point_def)


lemma extract_round_trip:
  "extract_trip lon_band round_trip
     = Inr \<lparr> duration_s = 2, distance_m = 2 * (earth_radius_m * pi),
             avg_speed_mps = earth_radius_m * pi, start_cell = 180, end_cell = 180,
             straight_line_ratio = Some 0 \<rparr>"
proof -
  have "great_circle_m (point ''R'' 0 0 0) (point ''R'' 2 0 0) = 0"
    by (rule great_circle_same_place) (simp_all add: point_def)
  moreover have "earth_radius_m \<noteq> 0"
    using earth_radius_pos by simp
  ultimately show ?thesis
    by (simp add: extract_trip_def faults_of_def ratio_of_def round_trip_def
          great_circle_half_equator clamp01_def)
       (simp add: point_def lon_band_def)
qed


text \<open>
  C3, as stated, fails twice. Scenario B has two points and no decreasing pair of
  timestamps, and its extraction fails. The round trip has strictly increasing
  timestamps and is extracted, but it ends where it started: its straight-line ratio is
  0, outside \<open>(0, 1]\<close>.
\<close>

theorem extract_trip_fails_or_zero_ratio:
  "2 \<le> length scenario_B_trip \<and> \<not> decreases scenario_B_trip
   \<and> extract_trip lon_band scenario_B_trip = Inl {DegenerateTrip}
   \<and> 2 \<le> length round_trip \<and> \<not> decreases round_trip
   \<and> timestamp (hd round_trip) < timestamp (last round_trip)
   \<and> extract_trip lon_band round_trip
       = Inr \<lparr> duration_s = 2, distance_m = 2 * (earth_radius_m * pi),
               avg_speed_mps = earth_radius_m * pi, start_cell = 180, end_cell = 180,
               straight_line_ratio = Some 0 \<rparr>"
  using extract_scenario_B extract_round_trip
  by (simp add: scenario_B_trip_def round_trip_def point_def)

text \<open>
  C3, amended. For every trip with at least 2 points, no decreasing pair of timestamps
  and a last timestamp later than the first, \<open>extract\<close> succeeds and returns a
  FeatureVector whose \<open>avg_speed_mps\<close> equals \<open>distance_m\<close> divided by \<open>duration_s\<close>.
  When the travelled distance is positive, its \<open>straight_line_ratio\<close> lies in the closed
  interval \<open>[0, 1]\<close>, and in \<open>(0, 1]\<close> when moreover the first and the last point are a
  positive great-circle distance apart. Of the ratio of a trip that has travelled no
  distance nothing is stated.
\<close>

theorem extract_trip_succeeds:
  assumes "2 \<le> length trip" and "\<not> decreases trip"
    and "timestamp (hd trip) < timestamp (last trip)"
  shows "\<exists>fv. extract_trip cellOf trip = Inr fv
            \<and> avg_speed_mps fv = distance_m fv / duration_s fv
            \<and> (0 < distance_m fv \<longrightarrow>
                 (\<exists>r. straight_line_ratio fv = Some r \<and> 0 \<le> r \<and> r \<le> 1
                      \<and> (0 < great_circle_m (hd trip) (last trip) \<longrightarrow> 0 < r)))"
proof -
  from assms have none: "faults_of trip = {}"
    by (rule faults_of_none)
  have ratio: "0 < path_length trip \<longrightarrow>
      (\<exists>r. ratio_of (great_circle_m (hd trip) (last trip)) (path_length trip) = Some r
           \<and> 0 \<le> r \<and> r \<le> 1 \<and> (0 < great_circle_m (hd trip) (last trip) \<longrightarrow> 0 < r))"
    using ratio_of_range by blast
  from none ratio show ?thesis
    by (simp add: extract_trip_def)
qed

theorem extract_trip_succeeds_witness:
  "2 \<le> length one_way_trip \<and> \<not> decreases one_way_trip
   \<and> timestamp (hd one_way_trip) < timestamp (last one_way_trip)
   \<and> 0 < path_length one_way_trip
   \<and> 0 < great_circle_m (hd one_way_trip) (last one_way_trip)
   \<and> (\<exists>fv r. extract_trip lon_band one_way_trip = Inr fv
            \<and> avg_speed_mps fv = distance_m fv / duration_s fv
            \<and> straight_line_ratio fv = Some r \<and> 0 < r \<and> r \<le> 1)"
proof -
  have h: "2 \<le> length one_way_trip" "\<not> decreases one_way_trip"
    "timestamp (hd one_way_trip) < timestamp (last one_way_trip)"
    by (simp_all add: one_way_trip_def point_def)
  have pos: "0 < path_length one_way_trip"
    "0 < great_circle_m (hd one_way_trip) (last one_way_trip)"
    using earth_radius_pos
    by (simp_all add: one_way_trip_def great_circle_half_equator)
  from extract_trip_succeeds [OF h, of lon_band]
  obtain fv where fv: "extract_trip lon_band one_way_trip = Inr fv"
    "avg_speed_mps fv = distance_m fv / duration_s fv"
    "0 < distance_m fv \<longrightarrow>
       (\<exists>r. straight_line_ratio fv = Some r \<and> 0 \<le> r \<and> r \<le> 1
            \<and> (0 < great_circle_m (hd one_way_trip) (last one_way_trip) \<longrightarrow> 0 < r))"
    by blast
  from fv(1) have "distance_m fv = path_length one_way_trip"
    by (auto simp: extract_trip_def split: if_splits)
  with fv(3) pos obtain r where "straight_line_ratio fv = Some r" "0 < r" "r \<le> 1"
    by auto
  with fv(1,2) h pos show ?thesis by blast
qed

section \<open>Properties of the batch and of the scorer\<close>



text \<open>Every trip of the batch ends in exactly one of the two lists.\<close>

lemma extract_batch_accounts:
  "length (fst (extract_batch cellOf batch)) + length (snd (extract_batch cellOf batch))
     = length batch"
  by (induction batch) (auto split: sum.splits)





lemma one_record_per_id:
  "distinct (map fst population) \<Longrightarrow> t \<in> set population
    \<Longrightarrow> length (filter (\<lambda>r. record_trip_id r = fst t) (score_all model population)) = 1"
proof (induction population)
  case Nil
  then show ?case by simp
next
  case (Cons x xs)
  from Cons.prems(1) have fresh: "fst x \<notin> fst ` set xs" and dist: "distinct (map fst xs)"
    by simp_all
  show ?case
  proof (cases "t = x")
    case True
    from fresh have "\<forall>y \<in> set xs. fst y \<noteq> fst x" by (metis imageI)
    then have "filter (\<lambda>r. record_trip_id r = fst x) (score_all model xs) = []"
      by (force simp: score_all_def score_def filter_empty_conv)
    with True show ?thesis by (simp add: score_all_def score_def)
  next
    case False
    with Cons.prems(2) have tin: "t \<in> set xs" by simp
    with fresh have "fst x \<noteq> fst t" by (metis imageI)
    with Cons.IH [OF dist tin] show ?thesis by (simp add: score_all_def score_def)
  qed
qed

lemma severity_of_high: "severity_of th tm s = HIGH \<Longrightarrow> th \<le> s"
  by (simp add: severity_of_def split: if_splits)

lemma severity_of_mono:
  "s \<le> s' \<Longrightarrow> severity_rank (severity_of th tm s) \<le> severity_rank (severity_of th tm s')"
  by (simp add: severity_of_def)

text \<open>
  C7. For every population of feature vectors that is scored, the records carry the trip
  identifiers of the population, one record per trip, so that a trip appears in exactly
  one AnomalyRecord; a record is \<open>HIGH\<close> only if its score is at least \<open>\<tau>_high\<close>; and
  the severity is monotonic in the score.
\<close>

theorem score_all_records:
  assumes "distinct (map fst population)"
  shows "map record_trip_id (score_all model population) = map fst population
    \<and> (\<forall>t \<in> set population.
            length (filter (\<lambda>r. record_trip_id r = fst t) (score_all model population)) = 1)
    \<and> (\<forall>r \<in> set (score_all model population).
            severity_label r = HIGH \<longrightarrow> tau_high model \<le> anomaly_score r)
    \<and> (\<forall>r \<in> set (score_all model population). \<forall>r' \<in> set (score_all model population).
            anomaly_score r \<le> anomaly_score r'
              \<longrightarrow> severity_rank (severity_label r) \<le> severity_rank (severity_label r'))"
proof (intro conjI ballI impI)
  show "map record_trip_id (score_all model population) = map fst population"
    by (simp add: score_all_def score_def)
next
  fix t assume "t \<in> set population"
  with assms show "length (filter (\<lambda>r. record_trip_id r = fst t) (score_all model population)) = 1"
    by (rule one_record_per_id)
next
  fix r assume "r \<in> set (score_all model population)" and "severity_label r = HIGH"
  then show "tau_high model \<le> anomaly_score r"
    by (auto simp: score_all_def score_def dest: severity_of_high)
next
  fix r r' assume "r \<in> set (score_all model population)"
    and "r' \<in> set (score_all model population)"
    and "anomaly_score r \<le> anomaly_score r'"
  then show "severity_rank (severity_label r) \<le> severity_rank (severity_label r')"
    by (auto simp: score_all_def score_def intro: severity_of_mono)
qed

lemma sample_scores:
  "score_all sample_model sample_population
     = [\<lparr> record_trip_id = ''R'', anomaly_score = 1, severity_label = HIGH,
           contributing_factors = [] \<rparr>,
        \<lparr> record_trip_id = ''W'', anomaly_score = 0, severity_label = LOW,
           contributing_factors = [] \<rparr>]"
  by (simp add: score_all_def score_def sample_model_def sample_population_def
      detour_score_def no_factors_def severity_of_def)

theorem score_all_records_witness:
  "distinct (map fst sample_population)
   \<and> length (filter (\<lambda>r. record_trip_id r = ''R'') (score_all sample_model sample_population)) = 1
   \<and> map severity_label (score_all sample_model sample_population) = [HIGH, LOW]
   \<and> tau_high sample_model \<le> anomaly_score (hd (score_all sample_model sample_population))"
proof -
  have d: "distinct (map fst sample_population)"
    by (simp add: sample_population_def)
  have "hd (score_all sample_model sample_population) \<in> set (score_all sample_model sample_population)"
    and "severity_label (hd (score_all sample_model sample_population)) = HIGH"
    and "hd sample_population \<in> set sample_population" and "fst (hd sample_population) = ''R''"
    by (simp_all add: sample_scores) (simp_all add: sample_population_def)
  with score_all_records [OF d, of sample_model] d show ?thesis
    by (simp add: sample_scores) 
qed

end
